theory Spec2Isabelle
  imports Main
begin

section \<open>PageVisitTimeManager: page visit durations over session storage\<close>

text \<open>
  A shallow embedding of \<^verbatim>\<open>PageVisitTimeManager.ts\<close>: the class
  \<^verbatim>\<open>PageVisitData\<close> and the four public methods of
  \<^verbatim>\<open>PageVisitTimeManager\<close>. The methods are written in an exception and state
  monad, one combinator per JavaScript construct (sequencing, \<^verbatim>\<open>throw\<close>,
  \<^verbatim>\<open>try/catch\<close>), so that every side effect made before a \<^verbatim>\<open>throw\<close>
  survives the \<^verbatim>\<open>catch\<close>, as it does in the source.
\<close>

subsection \<open>Values\<close>

text \<open>
  A JavaScript Error object, with its message. \<^verbatim>\<open>throwError(msg)\<close> throws
  \<^verbatim>\<open>new Error(msg)\<close>; reading a property of \<^verbatim>\<open>null\<close> throws a
  \<^verbatim>\<open>TypeError\<close>. The library functions the class calls throw Error objects
  and nothing else.
\<close>

datatype error = Error string | TypeError string

text \<open>
  A thrown JavaScript value: \<^verbatim>\<open>throw\<close> takes any value. It is an Error object,
  or any other value (an object that refers to itself, a \<^verbatim>\<open>BigInt\<close>, a string),
  given here by its source text; the class never looks into what it catches, it
  hands it to \<^verbatim>\<open>dumpObj\<close>. The injected handler is code of the caller and may
  throw either.
\<close>

datatype exn = ErrorObject error | Value string

text \<open>
  \<^verbatim>\<open>class PageVisitData\<close>. Timestamps are milliseconds since the epoch as
  \<^verbatim>\<open>dateNow()\<close> returns them, integers on which the subtraction of the source
  is exact. The constructor never assigns \<^verbatim>\<open>pageVisitTime\<close>: the field is
  \<^verbatim>\<open>undefined\<close> (\<open>None\<close>) until \<^verbatim>\<open>stopPageVisitTimer\<close> assigns it.
\<close>

record PageVisitData =
  pageName :: string
  pageUrl :: string
  pageVisitStartTime :: int
  pageVisitTime :: "int option"

text \<open>
  The object \<^verbatim>\<open>getJSON()\<close> returns. Each of its two methods may throw
  (\<^verbatim>\<open>JSON.parse\<close> throws a \<^verbatim>\<open>SyntaxError\<close> on malformed text). The result
  of \<^verbatim>\<open>parse\<close> has the type the source declares for it,
  \<^verbatim>\<open>const prevPageVisitData: PageVisitData\<close>.
\<close>

record json =
  stringify :: "PageVisitData \<Rightarrow> error + string"
  parse :: "string \<Rightarrow> error + PageVisitData"

subsection \<open>The collaborators of the class\<close>

text \<open>
  The functions imported from \<^verbatim>\<open>@microsoft/applicationinsights-common\<close> and
  \<^verbatim>\<open>@microsoft/applicationinsights-core-js\<close> and the handler injected by the
  constructor are parameters of the model. \<open>'w\<close> is the world they act on (the
  browser's session storage, its clock, whatever the handler touches). A call
  takes the world and returns either a thrown value or a result, with the world
  it leaves behind. The logger argument of the storage functions is left out, and
  so is the boolean \<^verbatim>\<open>utlSetSessionStorage\<close> and \<^verbatim>\<open>utlRemoveSessionStorage\<close>
  return, which the class ignores.

  \<^verbatim>\<open>dumpObj\<close> is given by two functions. \<open>dumpError\<close> is what it prints for an
  Error object, from the object's own name, message and stack: that cannot fail.
  \<open>dumpValue\<close> is what it does with any other value, which it has to serialize:
  that may throw (on an object that refers to itself, for one).
\<close>

record 'w env =
  utlCanUseSessionStorage :: "'w \<Rightarrow> (error + bool) \<times> 'w"
  utlGetSessionStorage :: "string \<Rightarrow> 'w \<Rightarrow> (error + string option) \<times> 'w"
  utlSetSessionStorage :: "string \<Rightarrow> string \<Rightarrow> 'w \<Rightarrow> (error + unit) \<times> 'w"
  utlRemoveSessionStorage :: "string \<Rightarrow> 'w \<Rightarrow> (error + unit) \<times> 'w"
  hasJSON :: bool
  getJSON :: "json option"
  dateNow :: "'w \<Rightarrow> (error + int) \<times> 'w"
  dumpError :: "error \<Rightarrow> string"
  dumpValue :: "string \<Rightarrow> error + string"
  pageVisitTimeTrackingHandler :: "string \<Rightarrow> string \<Rightarrow> int option \<Rightarrow> 'w \<Rightarrow> (exn + unit) \<times> 'w"

text \<open>
  The state a method runs in: the world, the warnings the logger has received
  (\<^verbatim>\<open>this._logger.warnToConsole\<close>, oldest first) and the calls made to the
  injected handler, oldest first, each with the three arguments it was given.
  No collaborator can change the last two: they are what an observer of the
  class sees. The logger is taken to accept every message without throwing.
\<close>

record 'w state =
  world :: 'w
  warnings :: "string list"
  reported :: "(string \<times> string \<times> int option) list"

type_synonym ('w, 'a) prog = "'w state \<Rightarrow> (exn + 'a) \<times> 'w state"

subsection \<open>Statements\<close>

definition ret :: "'a \<Rightarrow> ('w, 'a) prog" where
  "ret v = (\<lambda>s. (Inr v, s))"

definition throw :: "exn \<Rightarrow> ('w, 'a) prog" where
  "throw e = (\<lambda>s. (Inl e, s))"

text \<open>\<open>andThen m f\<close>: run \<open>m\<close>; when it throws, so does the whole; otherwise go on with \<open>f\<close>.\<close>

definition andThen :: "('w, 'a) prog \<Rightarrow> ('a \<Rightarrow> ('w, 'b) prog) \<Rightarrow> ('w, 'b) prog" where
  "andThen m f = (\<lambda>s. case m s of (Inl e, s') \<Rightarrow> (Inl e, s') | (Inr v, s') \<Rightarrow> f v s')"

text \<open>\<^verbatim>\<open>try { m } catch (e) { h }\<close>: the handler runs in the state the body left.\<close>

definition tryCatch :: "('w, 'a) prog \<Rightarrow> (exn \<Rightarrow> ('w, 'a) prog) \<Rightarrow> ('w, 'a) prog" where
  "tryCatch m h = (\<lambda>s. case m s of (Inl e, s') \<Rightarrow> h e s' | (Inr v, s') \<Rightarrow> (Inr v, s'))"

text \<open>
  A call of a library function: it sees and changes the world only, and what it
  throws is an Error object.
\<close>

definition inWorld :: "('w \<Rightarrow> (error + 'a) \<times> 'w) \<Rightarrow> ('w, 'a) prog" where
  "inWorld c =
     (\<lambda>s. case c (world s) of
            (Inl x, w') \<Rightarrow> (Inl (ErrorObject x), s\<lparr>world := w'\<rparr>)
          | (Inr v, w') \<Rightarrow> (Inr v, s\<lparr>world := w'\<rparr>))"

text \<open>The outcome of a library function that has no effect on the world.\<close>

definition returnOrThrow :: "error + 'a \<Rightarrow> ('w, 'a) prog" where
  "returnOrThrow r = (case r of Inl x \<Rightarrow> throw (ErrorObject x) | Inr v \<Rightarrow> ret v)"

text \<open>A call of a method of \<^verbatim>\<open>getJSON()\<close>, which is \<^verbatim>\<open>null\<close> where there is no JSON.\<close>

definition callJSON :: "'w env \<Rightarrow> (json \<Rightarrow> error + 'a) \<Rightarrow> ('w, 'a) prog" where
  "callJSON env f =
     (case getJSON env of
        None \<Rightarrow> throw (ErrorObject (TypeError ''Cannot read properties of null''))
      | Some j \<Rightarrow> returnOrThrow (f j))"

definition throwError :: "string \<Rightarrow> ('w, 'a) prog" where
  "throwError message = throw (ErrorObject (Error message))"

text \<open>
  \<^verbatim>\<open>dumpObj(e)\<close>: the text for an Error object, or the attempt to serialize
  anything else.
\<close>

definition dumpObj :: "'w env \<Rightarrow> exn \<Rightarrow> error + string" where
  "dumpObj env e = (case e of ErrorObject x \<Rightarrow> Inr (dumpError env x) | Value v \<Rightarrow> dumpValue env v)"

definition warnToConsole :: "string \<Rightarrow> ('w, unit) prog" where
  "warnToConsole message = (\<lambda>s. (Inr (), s\<lparr>warnings := warnings s @ [message]\<rparr>))"

text \<open>
  \<^verbatim>\<open>this._logger.warnToConsole(prefix + dumpObj(e))\<close>, the body of every
  \<^verbatim>\<open>catch\<close> of the class: the argument is evaluated first, and when
  \<^verbatim>\<open>dumpObj\<close> throws nothing is logged and its error leaves the \<^verbatim>\<open>catch\<close>.
\<close>

definition warnFailed :: "'w env \<Rightarrow> string \<Rightarrow> exn \<Rightarrow> ('w, unit) prog" where
  "warnFailed env prefix e =
     andThen (returnOrThrow (dumpObj env e)) (\<lambda>dumped. warnToConsole (prefix @ dumped))"

text \<open>
  A call of the injected handler: the handler runs on the world, returns or
  throws, and the call is recorded with its arguments.
\<close>

definition callHandler :: "'w env \<Rightarrow> string \<Rightarrow> string \<Rightarrow> int option \<Rightarrow> ('w, unit) prog" where
  "callHandler env name url time =
     (\<lambda>s. case pageVisitTimeTrackingHandler env name url time (world s) of
            (r, w') \<Rightarrow> (r, s\<lparr>world := w', reported := reported s @ [(name, url, time)]\<rparr>))"

text \<open>
  JavaScript truthiness of a \<^verbatim>\<open>string | null\<close>: \<^verbatim>\<open>null\<close> and the empty string
  are falsy.
\<close>

fun truthy :: "string option \<Rightarrow> bool" where
  "truthy None = False"
| "truthy (Some v) = (v \<noteq> [])"

subsection \<open>PageVisitData and PageVisitTimeManager\<close>

definition prevPageVisitDataKeyName :: string where
  "prevPageVisitDataKeyName = ''prevPageVisitData''"

text \<open>\<^verbatim>\<open>new PageVisitData(pageName, pageUrl)\<close>\<close>

definition new_PageVisitData :: "'w env \<Rightarrow> string \<Rightarrow> string \<Rightarrow> ('w, PageVisitData) prog" where
  "new_PageVisitData env name url =
     andThen (inWorld (dateNow env)) (\<lambda>t.
     ret \<lparr>pageName = name, pageUrl = url, pageVisitStartTime = t, pageVisitTime = None\<rparr>)"

text \<open>The body of the \<^verbatim>\<open>try\<close> of \<^verbatim>\<open>startPageVisitTimer\<close>.\<close>

definition startBody :: "'w env \<Rightarrow> string \<Rightarrow> string \<Rightarrow> ('w, unit) prog" where
  "startBody env name url =
     andThen (inWorld (utlCanUseSessionStorage env)) (\<lambda>canUse.
     if canUse then
       andThen (inWorld (utlGetSessionStorage env prevPageVisitDataKeyName)) (\<lambda>stored.
       andThen (if stored \<noteq> None
                then throwError ''Cannot call startPageVisit consecutively without first calling stopPageVisit''
                else ret ()) (\<lambda>_.
       andThen (new_PageVisitData env name url) (\<lambda>currPageVisitData.
       andThen (callJSON env (\<lambda>j. stringify j currPageVisitData)) (\<lambda>currPageVisitDataStr.
       inWorld (utlSetSessionStorage env prevPageVisitDataKeyName currPageVisitDataStr)))))
     else ret ())"

definition startPageVisitTimer :: "'w env \<Rightarrow> string \<Rightarrow> string \<Rightarrow> ('w, unit) prog" where
  "startPageVisitTimer env name url =
     tryCatch (startBody env name url)
       (\<lambda>e. warnFailed env ''Call to start failed: '' e)"

text \<open>The body of the \<^verbatim>\<open>try\<close> of \<^verbatim>\<open>stopPageVisitTimer\<close>.\<close>

definition stopBody :: "'w env \<Rightarrow> ('w, PageVisitData option) prog" where
  "stopBody env =
     andThen (inWorld (utlCanUseSessionStorage env)) (\<lambda>canUse.
     if canUse then
       andThen (inWorld (dateNow env)) (\<lambda>pageVisitEndTime.
       andThen (inWorld (utlGetSessionStorage env prevPageVisitDataKeyName)) (\<lambda>pageVisitDataJsonStr.
       if truthy pageVisitDataJsonStr \<and> hasJSON env then
         andThen (callJSON env (\<lambda>j. parse j (the pageVisitDataJsonStr))) (\<lambda>parsed.
         let prevPageVisitData =
               parsed\<lparr>pageVisitTime := Some (pageVisitEndTime - pageVisitStartTime parsed)\<rparr>
         in andThen (inWorld (utlRemoveSessionStorage env prevPageVisitDataKeyName)) (\<lambda>_.
            ret (Some prevPageVisitData)))
       else ret None))
     else ret None)"

definition stopPageVisitTimer :: "'w env \<Rightarrow> ('w, PageVisitData option) prog" where
  "stopPageVisitTimer env =
     tryCatch (stopBody env)
       (\<lambda>e. andThen (warnFailed env ''Stop page visit timer failed: '' e) (\<lambda>_.
             ret None))"

text \<open>The body of the \<^verbatim>\<open>try\<close> of \<^verbatim>\<open>restartPageVisitTimer\<close>.\<close>

definition restartBody :: "'w env \<Rightarrow> string \<Rightarrow> string \<Rightarrow> ('w, PageVisitData option) prog" where
  "restartBody env name url =
     andThen (stopPageVisitTimer env) (\<lambda>prevPageVisitData.
     andThen (startPageVisitTimer env name url) (\<lambda>_.
     ret prevPageVisitData))"

definition restartPageVisitTimer :: "'w env \<Rightarrow> string \<Rightarrow> string \<Rightarrow> ('w, PageVisitData option) prog" where
  "restartPageVisitTimer env name url =
     tryCatch (restartBody env name url)
       (\<lambda>e. andThen (warnFailed env ''Call to restart failed: '' e) (\<lambda>_.
             ret None))"

text \<open>The body of the \<^verbatim>\<open>try\<close> of \<^verbatim>\<open>trackPreviousPageVisit\<close>.\<close>

definition trackBody :: "'w env \<Rightarrow> string \<Rightarrow> string \<Rightarrow> ('w, unit) prog" where
  "trackBody env currentPageName currentPageUrl =
     andThen (restartPageVisitTimer env currentPageName currentPageUrl) (\<lambda>prevPageVisitTimeData.
     case prevPageVisitTimeData of
       Some d \<Rightarrow> callHandler env (pageName d) (pageUrl d) (pageVisitTime d)
     | None \<Rightarrow> ret ())"

definition trackPreviousPageVisit :: "'w env \<Rightarrow> string \<Rightarrow> string \<Rightarrow> ('w, unit) prog" where
  "trackPreviousPageVisit env currentPageName currentPageUrl =
     tryCatch (trackBody env currentPageName currentPageUrl)
       (\<lambda>e. warnFailed env
               ''Auto track page visit time failed, metric will not be collected: '' e)"

subsection \<open>An in-memory session and a table-driven JSON\<close>

text \<open>
  Modelled from the spec: the persistence capability and the clock, which the
  source imports from packages that are not part of these sources. Section 6 of
  the specification gives the capability as \<^verbatim>\<open>canUse() -> bool\<close>,
  \<^verbatim>\<open>get(key) -> string | null\<close>, \<^verbatim>\<open>set(key, value)\<close> and
  \<^verbatim>\<open>remove(key)\<close> over a key/value store scoped to the browsing session.
  \<open>clock\<close> is the time \<^verbatim>\<open>dateNow()\<close> reads; reading it does not advance it,
  time passes between calls.
\<close>

record session =
  storageEnabled :: bool
  sessionStorage :: "string \<Rightarrow> string option"
  clock :: int

text \<open>
  Modelled from the spec: the storage functions and \<^verbatim>\<open>dateNow\<close> over a
  \<open>session\<close>, none of which throws. \<^verbatim>\<open>hasJSON()\<close>, \<^verbatim>\<open>getJSON()\<close>, the two
  parts of \<^verbatim>\<open>dumpObj\<close> and the injected handler stay parameters; the handler
  may throw any value but has no access to the session.
\<close>

definition browser ::
  "bool \<Rightarrow> json option \<Rightarrow> (error \<Rightarrow> string) \<Rightarrow> (string \<Rightarrow> error + string)
   \<Rightarrow> (string \<Rightarrow> string \<Rightarrow> int option \<Rightarrow> exn + unit) \<Rightarrow> session env" where
  "browser hasJ js dump dumpV handler =
     \<lparr>utlCanUseSessionStorage = (\<lambda>w. (Inr (storageEnabled w), w)),
      utlGetSessionStorage = (\<lambda>key w. (Inr (sessionStorage w key), w)),
      utlSetSessionStorage =
        (\<lambda>key v w. (Inr (), w\<lparr>sessionStorage := (sessionStorage w)(key \<mapsto> v)\<rparr>)),
      utlRemoveSessionStorage =
        (\<lambda>key w. (Inr (), w\<lparr>sessionStorage := (sessionStorage w)(key := None)\<rparr>)),
      hasJSON = hasJ,
      getJSON = js,
      dateNow = (\<lambda>w. (Inr (clock w), w)),
      dumpError = dump,
      dumpValue = dumpV,
      pageVisitTimeTrackingHandler = (\<lambda>name url time w. (handler name url time, w))\<rparr>"

text \<open>The value of the one slot the class uses.\<close>

definition slot :: "session state \<Rightarrow> string option" where
  "slot s = sessionStorage (world s) prevPageVisitDataKeyName"

definition setSlot :: "string option \<Rightarrow> session state \<Rightarrow> session state" where
  "setSlot v s =
     s\<lparr>world := (world s)\<lparr>sessionStorage := (sessionStorage (world s))(prevPageVisitDataKeyName := v)\<rparr>\<rparr>"

text \<open>
  The record \<^verbatim>\<open>new PageVisitData(name, url)\<close> builds at time \<open>t\<close>.
\<close>

definition unfinalized :: "string \<Rightarrow> string \<Rightarrow> int \<Rightarrow> PageVisitData" where
  "unfinalized name url t =
     \<lparr>pageName = name, pageUrl = url, pageVisitStartTime = t, pageVisitTime = None\<rparr>"

text \<open>
  What the specification says \<^verbatim>\<open>restart\<close> is: \<^verbatim>\<open>stop()\<close>, then
  \<^verbatim>\<open>start(name, url)\<close>, returning what \<^verbatim>\<open>stop()\<close> returned.
\<close>

definition stopThenStart :: "'w env \<Rightarrow> string \<Rightarrow> string \<Rightarrow> ('w, PageVisitData option) prog" where
  "stopThenStart env name url =
     (\<lambda>s. case stopPageVisitTimer env s of
            (stopped, s1) \<Rightarrow> (case startPageVisitTimer env name url s1 of (_, s2) \<Rightarrow> (stopped, s2)))"

text \<open>
  Examples: a JSON object that knows the texts of finitely many records, as a
  table; a \<^verbatim>\<open>dumpObj\<close> that prints the message of an Error object and fails on
  the one value that has no JSON text; handlers that accept every call, that throw
  an Error object, that throw that value, and that leave a mark in the session;
  sessions.
\<close>

definition tableJSON :: "(PageVisitData \<times> string) list \<Rightarrow> json" where
  "tableJSON table =
     \<lparr>stringify = (\<lambda>d. case map_of table d of
                          Some text \<Rightarrow> Inr text
                        | None \<Rightarrow> Inl (TypeError ''cannot serialize'')),
      parse = (\<lambda>text. case map_of (map (\<lambda>(d, t). (t, d)) table) text of
                         Some d \<Rightarrow> Inr d
                       | None \<Rightarrow> Inl (Error ''SyntaxError''))\<rparr>"

definition exJSON :: json where
  "exJSON =
     tableJSON
       [(unfinalized ''p1'' ''u1'' 1000, ''{1000,p1,u1}''),
        (unfinalized ''p2'' ''u2'' 1500, ''{1500,p2,u2}''),
        (unfinalized ''p3'' ''u3'' 2000, ''{2000,p3,u3}'')]"

fun exDump :: "error \<Rightarrow> string" where
  "exDump (Error m) = m"
| "exDump (TypeError m) = m"

definition exDumpValue :: "string \<Rightarrow> error + string" where
  "exDumpValue v =
     (if v = ''o = {}; o.self = o'' then Inl (TypeError ''Converting circular structure to JSON'')
      else Inr v)"

definition okHandler :: "string \<Rightarrow> string \<Rightarrow> int option \<Rightarrow> exn + unit" where
  "okHandler name url time = Inr ()"

definition badHandler :: "string \<Rightarrow> string \<Rightarrow> int option \<Rightarrow> exn + unit" where
  "badHandler name url time = Inl (ErrorObject (Error ''handler failed''))"

definition circularHandler :: "string \<Rightarrow> string \<Rightarrow> int option \<Rightarrow> exn + unit" where
  "circularHandler name url time = Inl (Value ''o = {}; o.self = o'')"

definition markingHandler ::
  "string \<Rightarrow> string \<Rightarrow> int option \<Rightarrow> session \<Rightarrow> (exn + unit) \<times> session" where
  "markingHandler name url time w =
     (Inr (), w\<lparr>sessionStorage := (sessionStorage w)(''sent'' \<mapsto> name @ '' '' @ url)\<rparr>)"

definition exMarking :: "session env" where
  "exMarking =
     (browser True (Some exJSON) exDump exDumpValue okHandler)
       \<lparr>pageVisitTimeTrackingHandler := markingHandler\<rparr>"

definition exState :: "bool \<Rightarrow> string option \<Rightarrow> int \<Rightarrow> session state" where
  "exState enabled stored t =
     \<lparr>world = \<lparr>storageEnabled = enabled,
                sessionStorage = Map.empty(prevPageVisitDataKeyName := stored),
                clock = t\<rparr>,
      warnings = [],
      reported = []\<rparr>"

section \<open>Properties\<close>

subsection \<open>Unfolding\<close>

lemmas prog_defs =
  ret_def throw_def andThen_def tryCatch_def inWorld_def returnOrThrow_def callJSON_def
  throwError_def warnToConsole_def warnFailed_def dumpObj_def callHandler_def

lemmas method_defs =
  new_PageVisitData_def startBody_def startPageVisitTimer_def stopBody_def
  stopPageVisitTimer_def restartBody_def restartPageVisitTimer_def trackBody_def
  trackPreviousPageVisit_def

lemmas browser_simps =
  method_defs prog_defs browser_def slot_def setSlot_def unfinalized_def Let_def

lemmas example_simps =
  browser_simps exState_def exJSON_def tableJSON_def exDumpValue_def okHandler_def
  badHandler_def circularHandler_def markingHandler_def

subsection \<open>What the methods throw\<close>

lemma warnFailed_ErrorObject:
  "warnFailed env prefix (ErrorObject x) s =
     (Inr (), s\<lparr>warnings := warnings s @ [prefix @ dumpError env x]\<rparr>)"
  by (simp add: prog_defs)

lemma warnFailed_dumped:
  "dumpObj env e = Inr m \<Longrightarrow>
   warnFailed env prefix e s = (Inr (), s\<lparr>warnings := warnings s @ [prefix @ m]\<rparr>)"
  by (simp add: warnFailed_def returnOrThrow_def andThen_def ret_def warnToConsole_def)

lemma warnFailed_throws:
  "dumpObj env e = Inl x \<Longrightarrow> warnFailed env prefix e s = (Inl (ErrorObject x), s)"
  by (simp add: warnFailed_def returnOrThrow_def andThen_def throw_def)

lemma inWorld_throws:
  assumes "inWorld c s = (Inl e, s')"
  obtains x where "e = ErrorObject x"
  using assms by (auto simp: inWorld_def split: prod.splits sum.splits)

lemma callJSON_throws:
  assumes "callJSON env f s = (Inl e, s')"
  obtains x where "e = ErrorObject x"
  using assms
  by (auto simp: callJSON_def returnOrThrow_def throw_def ret_def split: option.splits sum.splits)

lemma andThen_throws:
  assumes "andThen m f s = (Inl e, s')"
    and "\<And>s s'. m s = (Inl e, s') \<Longrightarrow> P"
    and "\<And>v s s'. f v s = (Inl e, s') \<Longrightarrow> P"
  shows P
  using assms by (auto simp: andThen_def split: prod.splits sum.splits)

lemma startBody_throws:
  assumes "startBody env name url s = (Inl e, s')"
  shows "\<exists>x. e = ErrorObject x"
  using assms unfolding startBody_def new_PageVisitData_def throwError_def
  by (auto elim!: andThen_throws inWorld_throws callJSON_throws
      simp: throw_def ret_def split: if_splits)

lemma stopBody_throws:
  assumes "stopBody env s = (Inl e, s')"
  shows "\<exists>x. e = ErrorObject x"
  using assms unfolding stopBody_def Let_def
  by (auto elim!: andThen_throws inWorld_throws callJSON_throws
      simp: throw_def ret_def split: if_splits)

lemma start_returns: "\<exists>s'. startPageVisitTimer env name url s = (Inr (), s')"
proof (cases "startBody env name url s")
  case (Pair r sf)
  show ?thesis
  proof (cases r)
    case (Inl e)
    with Pair obtain x where "e = ErrorObject x" using startBody_throws by blast
    with Pair Inl show ?thesis
      by (simp add: startPageVisitTimer_def tryCatch_def warnFailed_ErrorObject)
  next
    case (Inr v)
    with Pair show ?thesis by (simp add: startPageVisitTimer_def tryCatch_def)
  qed
qed

lemma stop_returns: "\<exists>r s'. stopPageVisitTimer env s = (Inr r, s')"
proof (cases "stopBody env s")
  case (Pair r sf)
  show ?thesis
  proof (cases r)
    case (Inl e)
    with Pair obtain x where "e = ErrorObject x" using stopBody_throws by blast
    with Pair Inl show ?thesis
      by (simp add: stopPageVisitTimer_def tryCatch_def warnFailed_ErrorObject andThen_def ret_def)
  next
    case (Inr v)
    with Pair show ?thesis by (simp add: stopPageVisitTimer_def tryCatch_def)
  qed
qed

lemma restartBody_returns: "\<exists>r s'. restartBody env name url s = (Inr r, s')"
proof -
  obtain r s1 where 1: "stopPageVisitTimer env s = (Inr r, s1)"
    using stop_returns by blast
  obtain s2 where 2: "startPageVisitTimer env name url s1 = (Inr (), s2)"
    using start_returns by blast
  show ?thesis
    unfolding restartBody_def andThen_def ret_def by (simp add: 1 2)
qed

lemma restart_is_body: "restartPageVisitTimer env name url s = restartBody env name url s"
proof -
  obtain r s' where "restartBody env name url s = (Inr r, s')"
    using restartBody_returns by blast
  then show ?thesis
    unfolding restartPageVisitTimer_def tryCatch_def by simp
qed


lemma restart_unfold:
  "restartPageVisitTimer env name url s =
     (fst (stopPageVisitTimer env s),
      snd (startPageVisitTimer env name url (snd (stopPageVisitTimer env s))))"
proof -
  obtain r s1 where 1: "stopPageVisitTimer env s = (Inr r, s1)"
    using stop_returns by blast
  obtain s2 where 2: "startPageVisitTimer env name url s1 = (Inr (), s2)"
    using start_returns by blast
  show ?thesis
    unfolding restart_is_body restartBody_def andThen_def ret_def by (simp add: 1 2)
qed

subsection \<open>Only a call of the handler is reported\<close>

lemma ret_reported: "reported (snd (ret v s)) = reported s"
  by (simp add: ret_def)

lemma throw_reported: "reported (snd (throw e s)) = reported s"
  by (simp add: throw_def)

lemma inWorld_reported: "reported (snd (inWorld c s)) = reported s"
  unfolding inWorld_def by (simp split: prod.splits sum.splits)

lemma warnFailed_reported: "reported (snd (warnFailed env prefix e s)) = reported s"
  by (simp add: prog_defs split: sum.splits exn.splits)

lemma callJSON_reported: "reported (snd (callJSON env f s)) = reported s"
  unfolding callJSON_def returnOrThrow_def
  by (simp add: ret_reported throw_reported split: option.splits sum.splits)

lemma andThen_reported:
  assumes "\<And>s. reported (snd (m s)) = reported s"
    and "\<And>v s. reported (snd (f v s)) = reported s"
  shows "reported (snd (andThen m f s)) = reported s"
proof (cases "m s")
  case (Pair r s')
  then have "reported s' = reported s" using assms(1) [of s] by simp
  then show ?thesis
    unfolding andThen_def using Pair assms(2) by (cases r) simp_all
qed

lemma tryCatch_reported:
  assumes "\<And>s. reported (snd (m s)) = reported s"
    and "\<And>e s. reported (snd (h e s)) = reported s"
  shows "reported (snd (tryCatch m h s)) = reported s"
proof (cases "m s")
  case (Pair r s')
  then have "reported s' = reported s" using assms(1) [of s] by simp
  then show ?thesis
    unfolding tryCatch_def using Pair assms(2) by (cases r) simp_all
qed

lemmas reported_intros =
  ret_reported throw_reported inWorld_reported warnFailed_reported callJSON_reported
  andThen_reported tryCatch_reported

lemma start_reported: "reported (snd (startPageVisitTimer env name url s)) = reported s"
  unfolding startPageVisitTimer_def startBody_def new_PageVisitData_def throwError_def
  by (intro reported_intros | simp add: reported_intros)+

lemma stop_reported: "reported (snd (stopPageVisitTimer env s)) = reported s"
  unfolding stopPageVisitTimer_def stopBody_def Let_def
  by (intro reported_intros | simp add: reported_intros)+

lemma restart_reported: "reported (snd (restartPageVisitTimer env name url s)) = reported s"
  by (simp add: restart_unfold start_reported stop_reported)

subsection \<open>The handler call inside trackPreviousPageVisit\<close>

lemma warnFailed_world: "world (snd (warnFailed env prefix e s)) = world s"
  by (simp add: prog_defs split: sum.splits exn.splits)

lemma track_after_restart_Some:
  assumes "restartPageVisitTimer env name url s = (Inr (Some d), s1)"
  shows "trackPreviousPageVisit env name url s =
     (case pageVisitTimeTrackingHandler env (pageName d) (pageUrl d) (pageVisitTime d) (world s1) of
        (Inr u, w') \<Rightarrow>
          (Inr (), s1\<lparr>world := w',
             reported := reported s1 @ [(pageName d, pageUrl d, pageVisitTime d)]\<rparr>)
      | (Inl e, w') \<Rightarrow>
          warnFailed env ''Auto track page visit time failed, metric will not be collected: '' e
            (s1\<lparr>world := w',
               reported := reported s1 @ [(pageName d, pageUrl d, pageVisitTime d)]\<rparr>))"
  using assms
  by (simp add: trackPreviousPageVisit_def trackBody_def tryCatch_def andThen_def callHandler_def
      split: prod.splits sum.splits)

lemma track_after_restart_None:
  assumes "restartPageVisitTimer env name url s = (Inr None, s1)"
  shows "trackPreviousPageVisit env name url s = (Inr (), s1)"
  using assms
  by (simp add: trackPreviousPageVisit_def trackBody_def tryCatch_def andThen_def ret_def)

subsection \<open>The methods on the in-memory session\<close>

lemma setSlot_slot: "setSlot (slot s) s = s"
  by (simp add: slot_def setSlot_def)

lemma slot_setSlot: "slot (setSlot v s) = v"
  by (simp add: slot_def setSlot_def)

lemma setSlot_setSlot: "setSlot v (setSlot u s) = setSlot v s"
  by (simp add: setSlot_def)

lemma browser_start_idle:
  assumes "storageEnabled (world s)" and "slot s = None"
    and "stringify j (unfinalized name url (clock (world s))) = Inr str"
  shows "startPageVisitTimer (browser hasJ (Some j) dump dumpV handler) name url s =
           (Inr (), setSlot (Some str) s)"
  using assms by (simp add: browser_simps)

lemma browser_start_busy:
  assumes "storageEnabled (world s)" and "slot s = Some v"
  shows "startPageVisitTimer (browser hasJ js dump dumpV handler) name url s =
           (Inr (), s\<lparr>warnings := warnings s @
              [''Call to start failed: '' @
               dump (Error ''Cannot call startPageVisit consecutively without first calling stopPageVisit'')]\<rparr>)"
  using assms by (simp add: browser_simps)

lemma browser_stop_timing:
  assumes "storageEnabled (world s)" and "slot s = Some str" and "str \<noteq> []"
    and "parse j str = Inr d"
  shows "stopPageVisitTimer (browser True (Some j) dump dumpV handler) s =
           (Inr (Some (d\<lparr>pageVisitTime := Some (clock (world s) - pageVisitStartTime d)\<rparr>)),
            setSlot None s)"
  using assms by (simp add: browser_simps)

lemma browser_stop_idle:
  assumes "slot s = None"
  shows "stopPageVisitTimer (browser hasJ js dump dumpV handler) s = (Inr None, s)"
  using assms by (simp add: browser_simps)

lemma browser_stop_falsy:
  assumes "slot s = Some v" and "v = [] \<or> \<not> hasJ"
  shows "stopPageVisitTimer (browser hasJ js dump dumpV handler) s = (Inr None, s)"
  using assms by (auto simp add: browser_simps)

lemma browser_stop_Some:
  assumes "stopPageVisitTimer (browser hasJ js dump dumpV handler) s = (Inr (Some d), s')"
  shows "s' = setSlot None s"
  using assms by (auto simp add: browser_simps split: if_splits option.splits sum.splits)

subsection \<open>The claims\<close>

text \<open>
  Claim C1. In every call of \<^verbatim>\<open>trackPreviousPageVisit\<close>: when the restart inside it
  returns a record, the injected handler is called exactly once, with the
  \<^verbatim>\<open>pageName\<close>, \<^verbatim>\<open>pageUrl\<close> and \<^verbatim>\<open>pageVisitTime\<close> of that record, the
  previous page's and not the new one's: the list of calls grows by that one entry,
  and the world the method leaves is the world that one application of the handler
  to these three arguments leaves, from the world the restart left. When the
  restart returns \<^verbatim>\<open>null\<close>, the handler is not called: the list of calls is as
  it was and the world is the one the restart left.
\<close>

theorem trackPreviousPageVisit_reports_previous:
  "(restartPageVisitTimer env currentPageName currentPageUrl s = (Inr (Some d), s1) \<longrightarrow>
      reported (snd (trackPreviousPageVisit env currentPageName currentPageUrl s)) =
        reported s @ [(pageName d, pageUrl d, pageVisitTime d)] \<and>
      world (snd (trackPreviousPageVisit env currentPageName currentPageUrl s)) =
        snd (pageVisitTimeTrackingHandler env (pageName d) (pageUrl d) (pageVisitTime d) (world s1))) \<and>
   (restartPageVisitTimer env currentPageName currentPageUrl s = (Inr None, s1) \<longrightarrow>
      reported (snd (trackPreviousPageVisit env currentPageName currentPageUrl s)) = reported s \<and>
      world (snd (trackPreviousPageVisit env currentPageName currentPageUrl s)) = world s1)"
proof (intro conjI impI)
  assume r: "restartPageVisitTimer env currentPageName currentPageUrl s = (Inr (Some d), s1)"
  have same: "reported s1 = reported s"
    using restart_reported [of env currentPageName currentPageUrl s] by (simp add: r)
  obtain out w' where h:
    "pageVisitTimeTrackingHandler env (pageName d) (pageUrl d) (pageVisitTime d) (world s1) = (out, w')"
    by (cases "pageVisitTimeTrackingHandler env (pageName d) (pageUrl d) (pageVisitTime d) (world s1)")
  show "reported (snd (trackPreviousPageVisit env currentPageName currentPageUrl s)) =
        reported s @ [(pageName d, pageUrl d, pageVisitTime d)]"
    by (cases out) (simp_all add: track_after_restart_Some [OF r] h same warnFailed_reported)
  show "world (snd (trackPreviousPageVisit env currentPageName currentPageUrl s)) =
        snd (pageVisitTimeTrackingHandler env (pageName d) (pageUrl d) (pageVisitTime d) (world s1))"
    by (cases out) (simp_all add: track_after_restart_Some [OF r] h warnFailed_world)
next
  assume r: "restartPageVisitTimer env currentPageName currentPageUrl s = (Inr None, s1)"
  have same: "reported s1 = reported s"
    using restart_reported [of env currentPageName currentPageUrl s] by (simp add: r)
  show "reported (snd (trackPreviousPageVisit env currentPageName currentPageUrl s)) = reported s"
    by (simp add: track_after_restart_None [OF r] same)
  show "world (snd (trackPreviousPageVisit env currentPageName currentPageUrl s)) = world s1"
    by (simp add: track_after_restart_None [OF r])
qed

text \<open>
  Two instances, with a handler that writes the page it is given under the key
  \<^verbatim>\<open>sent\<close>: a page is being timed when the call is made, and the key holds that
  page afterwards; none is, and the key stays empty.
\<close>

theorem trackPreviousPageVisit_reports_previous_witness:
  "restartPageVisitTimer exMarking ''p2'' ''u2'' (exState True (Some ''{1000,p1,u1}'') 1500) =
     (Inr (Some \<lparr>pageName = ''p1'', pageUrl = ''u1'', pageVisitStartTime = 1000,
                 pageVisitTime = Some 500\<rparr>),
      exState True (Some ''{1500,p2,u2}'') 1500) \<and>
   reported (snd (trackPreviousPageVisit exMarking ''p2'' ''u2''
     (exState True (Some ''{1000,p1,u1}'') 1500))) = [(''p1'', ''u1'', Some 500)] \<and>
   sessionStorage (world (snd (trackPreviousPageVisit exMarking ''p2'' ''u2''
     (exState True (Some ''{1000,p1,u1}'') 1500)))) ''sent'' = Some ''p1 u1'' \<and>
   restartPageVisitTimer exMarking ''p2'' ''u2'' (exState True None 1500) =
     (Inr None, exState True (Some ''{1500,p2,u2}'') 1500) \<and>
   reported (snd (trackPreviousPageVisit exMarking ''p2'' ''u2'' (exState True None 1500))) = [] \<and>
   sessionStorage (world (snd (trackPreviousPageVisit exMarking ''p2'' ''u2''
     (exState True None 1500)))) ''sent'' = None"
proof -
  let ?d = "\<lparr>pageName = ''p1'', pageUrl = ''u1'', pageVisitStartTime = 1000,
             pageVisitTime = Some 500\<rparr>"
  let ?s1 = "exState True (Some ''{1500,p2,u2}'') 1500"
  have h1: "restartPageVisitTimer exMarking ''p2'' ''u2''
      (exState True (Some ''{1000,p1,u1}'') 1500) = (Inr (Some ?d), ?s1)"
    by (simp add: exMarking_def example_simps)
  have h2: "restartPageVisitTimer exMarking ''p2'' ''u2'' (exState True None 1500) =
      (Inr None, ?s1)"
    by (simp add: exMarking_def example_simps)
  have e: "reported (exState True (Some ''{1000,p1,u1}'') 1500) = []"
    "reported (exState True None 1500) = []"
    "sessionStorage (snd (pageVisitTimeTrackingHandler exMarking (pageName ?d) (pageUrl ?d)
        (pageVisitTime ?d) (world ?s1))) ''sent'' = Some ''p1 u1''"
    "sessionStorage (world ?s1) ''sent'' = None"
    by (simp_all add: exMarking_def browser_def markingHandler_def exState_def
        prevPageVisitDataKeyName_def)
  note a = trackPreviousPageVisit_reports_previous
    [of exMarking "''p2''" "''u2''" "exState True (Some ''{1000,p1,u1}'') 1500" ?d ?s1,
      THEN conjunct1, THEN mp, OF h1]
  note b = trackPreviousPageVisit_reports_previous
    [of exMarking "''p2''" "''u2''" "exState True None 1500" _ ?s1,
      THEN conjunct2, THEN mp, OF h2]
  show ?thesis
    using h1 h2 a b e by simp
qed




text \<open>
  Claim C3. With session storage and JSON present, and a JSON whose
  \<^verbatim>\<open>parse\<close> reads back the text \<^verbatim>\<open>stringify\<close> gives for the record of
  \<^verbatim>\<open>start(name, url)\<close> at time \<open>t0\<close> (a text that is never empty): start on an
  empty slot writes that text; stop on a slot holding it returns the record, with
  the name and url given to start and \<^verbatim>\<open>pageVisitTime\<close> the time of the stop
  minus \<open>t0\<close>, and removes the slot entry; start followed at once by stop returns
  the record with duration 0 and leaves the session as it was.
\<close>

theorem stop_finalizes_started_record:
  assumes "stringify j (unfinalized name url t0) = Inr str"
    and "parse j str = Inr (unfinalized name url t0)"
    and "str \<noteq> []"
  shows
   "(storageEnabled (world s0) \<and> slot s0 = None \<and> clock (world s0) = t0 \<longrightarrow>
       startPageVisitTimer (browser True (Some j) dump dumpV handler) name url s0 =
         (Inr (), setSlot (Some str) s0)) \<and>
    (storageEnabled (world s) \<and> slot s = Some str \<longrightarrow>
       stopPageVisitTimer (browser True (Some j) dump dumpV handler) s =
         (Inr (Some \<lparr>pageName = name, pageUrl = url, pageVisitStartTime = t0,
                     pageVisitTime = Some (clock (world s) - t0)\<rparr>),
          setSlot None s)) \<and>
    (storageEnabled (world s0) \<and> slot s0 = None \<and> clock (world s0) = t0 \<longrightarrow>
       stopPageVisitTimer (browser True (Some j) dump dumpV handler)
         (snd (startPageVisitTimer (browser True (Some j) dump dumpV handler) name url s0)) =
         (Inr (Some \<lparr>pageName = name, pageUrl = url, pageVisitStartTime = t0,
                     pageVisitTime = Some 0\<rparr>),
          s0))"
proof (intro conjI impI)
  assume a: "storageEnabled (world s0) \<and> slot s0 = None \<and> clock (world s0) = t0"
  then show start: "startPageVisitTimer (browser True (Some j) dump dumpV handler) name url s0 =
         (Inr (), setSlot (Some str) s0)"
    using assms(1) by (simp add: browser_start_idle)
  have "setSlot None s0 = s0"
    using a setSlot_slot [of s0] by simp
  moreover have "storageEnabled (world (setSlot (Some str) s0))"
    and "clock (world (setSlot (Some str) s0)) = t0"
    using a by (simp_all add: setSlot_def)
  ultimately show "stopPageVisitTimer (browser True (Some j) dump dumpV handler)
         (snd (startPageVisitTimer (browser True (Some j) dump dumpV handler) name url s0)) =
         (Inr (Some \<lparr>pageName = name, pageUrl = url, pageVisitStartTime = t0,
                     pageVisitTime = Some 0\<rparr>),
          s0)"
    using assms(2,3)
    by (simp add: start browser_stop_timing slot_setSlot setSlot_setSlot unfinalized_def)
next
  assume "storageEnabled (world s) \<and> slot s = Some str"
  then show "stopPageVisitTimer (browser True (Some j) dump dumpV handler) s =
         (Inr (Some \<lparr>pageName = name, pageUrl = url, pageVisitStartTime = t0,
                     pageVisitTime = Some (clock (world s) - t0)\<rparr>),
          setSlot None s)"
    using assms(2,3) by (simp add: browser_stop_timing unfinalized_def)
qed

text \<open>An instance: start at time 1000, stop at time 1200 and stop at once.\<close>

theorem stop_finalizes_started_record_witness:
  "startPageVisitTimer (browser True (Some exJSON) exDump exDumpValue okHandler) ''p1'' ''u1''
     (exState True None 1000) =
     (Inr (), exState True (Some ''{1000,p1,u1}'') 1000) \<and>
   stopPageVisitTimer (browser True (Some exJSON) exDump exDumpValue okHandler)
     (exState True (Some ''{1000,p1,u1}'') 1200) =
     (Inr (Some \<lparr>pageName = ''p1'', pageUrl = ''u1'', pageVisitStartTime = 1000,
                 pageVisitTime = Some 200\<rparr>),
      exState True None 1200) \<and>
   stopPageVisitTimer (browser True (Some exJSON) exDump exDumpValue okHandler)
     (snd (startPageVisitTimer (browser True (Some exJSON) exDump exDumpValue okHandler) ''p1'' ''u1''
        (exState True None 1000))) =
     (Inr (Some \<lparr>pageName = ''p1'', pageUrl = ''u1'', pageVisitStartTime = 1000,
                 pageVisitTime = Some 0\<rparr>),
      exState True None 1000)"
proof -
  have j: "stringify exJSON (unfinalized ''p1'' ''u1'' 1000) = Inr ''{1000,p1,u1}''"
    "parse exJSON ''{1000,p1,u1}'' = Inr (unfinalized ''p1'' ''u1'' 1000)"
    "''{1000,p1,u1}'' \<noteq> []"
    by (simp_all add: exJSON_def tableJSON_def unfinalized_def)
  have s0: "storageEnabled (world (exState True None 1000)) \<and> slot (exState True None 1000) = None \<and>
    clock (world (exState True None 1000)) = 1000"
    by (simp add: exState_def slot_def)
  have s: "storageEnabled (world (exState True (Some ''{1000,p1,u1}'') 1200)) \<and>
    slot (exState True (Some ''{1000,p1,u1}'') 1200) = Some ''{1000,p1,u1}''"
    by (simp add: exState_def slot_def)
  have e: "setSlot (Some ''{1000,p1,u1}'') (exState True None 1000) =
      exState True (Some ''{1000,p1,u1}'') 1000"
    "setSlot None (exState True (Some ''{1000,p1,u1}'') 1200) = exState True None 1200"
    "clock (world (exState True (Some ''{1000,p1,u1}'') 1200)) = 1200"
    by (simp_all add: exState_def setSlot_def)
  note inst = stop_finalizes_started_record [OF j, of "exState True None 1000" exDump exDumpValue okHandler
                "exState True (Some ''{1000,p1,u1}'') 1200"]
  show ?thesis
    using inst [THEN conjunct1, THEN mp, OF s0]
      inst [THEN conjunct2, THEN conjunct1, THEN mp, OF s]
      inst [THEN conjunct2, THEN conjunct2, THEN mp, OF s0]
    by (simp add: e)
qed

text \<open>
  Claim C4. \<^verbatim>\<open>startPageVisitTimer\<close> on a slot that already holds a value: the body
  throws the error "Cannot call startPageVisit consecutively ...", the method
  catches it, logs it as a warning and returns normally; nothing but the list of
  warnings changes, so the slot holds what it held, and a stop after it returns
  what a stop before it would have returned.
\<close>

theorem consecutive_start_swallowed:
  assumes "storageEnabled (world s)" and "slot s = Some v"
  shows
   "startBody (browser hasJ js dump dumpV handler) name url s =
      (Inl (ErrorObject (Error ''Cannot call startPageVisit consecutively without first calling stopPageVisit'')), s) \<and>
    startPageVisitTimer (browser hasJ js dump dumpV handler) name url s =
      (Inr (), s\<lparr>warnings := warnings s @
         [''Call to start failed: '' @
          dump (Error ''Cannot call startPageVisit consecutively without first calling stopPageVisit'')]\<rparr>) \<and>
    slot (snd (startPageVisitTimer (browser hasJ js dump dumpV handler) name url s)) = Some v \<and>
    fst (stopPageVisitTimer (browser hasJ js dump dumpV handler)
           (snd (startPageVisitTimer (browser hasJ js dump dumpV handler) name url s))) =
      fst (stopPageVisitTimer (browser hasJ js dump dumpV handler) s)"
proof -
  have body: "startBody (browser hasJ js dump dumpV handler) name url s =
      (Inl (ErrorObject (Error ''Cannot call startPageVisit consecutively without first calling stopPageVisit'')), s)"
    using assms by (simp add: browser_simps)
  have rest: "fst (stopPageVisitTimer (browser hasJ js dump dumpV handler)
        (s\<lparr>warnings := warnings s @
           [''Call to start failed: '' @
            dump (Error ''Cannot call startPageVisit consecutively without first calling stopPageVisit'')]\<rparr>)) =
      fst (stopPageVisitTimer (browser hasJ js dump dumpV handler) s)"
    by (simp add: browser_simps split: sum.splits option.splits)
  show ?thesis
    using assms body rest by (simp add: browser_start_busy slot_def)
qed

text \<open>An instance of the theorem, on the example session.\<close>

theorem consecutive_start_swallowed_witness:
  "storageEnabled (world (exState True (Some ''{1000,p1,u1}'') 1500)) \<and>
   slot (exState True (Some ''{1000,p1,u1}'') 1500) = Some ''{1000,p1,u1}'' \<and>
   startBody (browser True (Some exJSON) exDump exDumpValue okHandler) ''p2'' ''u2''
     (exState True (Some ''{1000,p1,u1}'') 1500) =
     (Inl (ErrorObject (Error ''Cannot call startPageVisit consecutively without first calling stopPageVisit'')),
      exState True (Some ''{1000,p1,u1}'') 1500) \<and>
   startPageVisitTimer (browser True (Some exJSON) exDump exDumpValue okHandler) ''p2'' ''u2''
     (exState True (Some ''{1000,p1,u1}'') 1500) =
     (Inr (), (exState True (Some ''{1000,p1,u1}'') 1500)
        \<lparr>warnings := [''Call to start failed: Cannot call startPageVisit consecutively without first calling stopPageVisit'']\<rparr>) \<and>
   fst (stopPageVisitTimer (browser True (Some exJSON) exDump exDumpValue okHandler)
     (snd (startPageVisitTimer (browser True (Some exJSON) exDump exDumpValue okHandler) ''p2'' ''u2''
        (exState True (Some ''{1000,p1,u1}'') 1500)))) =
     Inr (Some \<lparr>pageName = ''p1'', pageUrl = ''u1'', pageVisitStartTime = 1000,
                pageVisitTime = Some 500\<rparr>)"
proof -
  let ?s = "exState True (Some ''{1000,p1,u1}'') 1500"
  have h: "storageEnabled (world ?s)" "slot ?s = Some ''{1000,p1,u1}''"
    by (simp_all add: exState_def slot_def)
  have stop: "fst (stopPageVisitTimer (browser True (Some exJSON) exDump exDumpValue okHandler) ?s) =
     Inr (Some \<lparr>pageName = ''p1'', pageUrl = ''u1'', pageVisitStartTime = 1000,
                pageVisitTime = Some 500\<rparr>)"
    by (simp add: example_simps)
  have w: "warnings ?s = []"
    by (simp add: exState_def)
  note inst = consecutive_start_swallowed [OF h, of True "Some exJSON" exDump exDumpValue okHandler "''p2''" "''u2''"]
  show ?thesis
    using h inst [THEN conjunct1] inst [THEN conjunct2, THEN conjunct1]
      inst [THEN conjunct2, THEN conjunct2, THEN conjunct2]
    by (simp add: stop w exDump.simps)
qed

text \<open>
  Claim C5. For every name, url and state, \<^verbatim>\<open>restartPageVisitTimer\<close> is
  \<^verbatim>\<open>stopPageVisitTimer\<close> followed by \<^verbatim>\<open>startPageVisitTimer\<close>, with the same
  final state, and it returns what the stop returned, whether or not the start
  that follows manages to write a record.
\<close>

theorem restart_is_stop_then_start:
  "restartPageVisitTimer env name url = stopThenStart env name url \<and>
   fst (restartPageVisitTimer env name url s) = fst (stopPageVisitTimer env s)"
  by (auto simp: restart_unfold stopThenStart_def split: prod.splits)

text \<open>
  Claim C6. When \<^verbatim>\<open>utlCanUseSessionStorage()\<close> answers \<^verbatim>\<open>false\<close>, every method
  leaves the state as it was: start does not throw and writes nothing, stop and
  restart return \<^verbatim>\<open>null\<close>, and \<^verbatim>\<open>trackPreviousPageVisit\<close> does not call the
  handler (the list of calls is part of the state).
\<close>

theorem storage_unavailable_noop:
  assumes "utlCanUseSessionStorage env (world s) = (Inr False, world s)"
  shows "startPageVisitTimer env name url s = (Inr (), s) \<and>
         stopPageVisitTimer env s = (Inr None, s) \<and>
         restartPageVisitTimer env name url s = (Inr None, s) \<and>
         trackPreviousPageVisit env name url s = (Inr (), s)"
proof -
  have a: "startPageVisitTimer env name url s = (Inr (), s)"
    unfolding startPageVisitTimer_def startBody_def prog_defs by (simp add: assms)
  have b: "stopPageVisitTimer env s = (Inr None, s)"
    unfolding stopPageVisitTimer_def stopBody_def prog_defs by (simp add: assms)
  have c: "restartPageVisitTimer env name url s = (Inr None, s)"
    by (simp add: restart_unfold a b)
  have d: "trackPreviousPageVisit env name url s = (Inr (), s)"
    unfolding trackPreviousPageVisit_def trackBody_def tryCatch_def andThen_def ret_def
    by (simp add: c)
  from a b c d show ?thesis by simp
qed

text \<open>An instance of the theorem, on the example session.\<close>

theorem storage_unavailable_noop_witness:
  "utlCanUseSessionStorage (browser True (Some exJSON) exDump exDumpValue okHandler)
     (world (exState False (Some ''{1000,p1,u1}'') 1500)) =
     (Inr False, world (exState False (Some ''{1000,p1,u1}'') 1500)) \<and>
   startPageVisitTimer (browser True (Some exJSON) exDump exDumpValue okHandler) ''p2'' ''u2''
     (exState False (Some ''{1000,p1,u1}'') 1500) =
     (Inr (), exState False (Some ''{1000,p1,u1}'') 1500) \<and>
   stopPageVisitTimer (browser True (Some exJSON) exDump exDumpValue okHandler)
     (exState False (Some ''{1000,p1,u1}'') 1500) =
     (Inr None, exState False (Some ''{1000,p1,u1}'') 1500) \<and>
   restartPageVisitTimer (browser True (Some exJSON) exDump exDumpValue okHandler) ''p2'' ''u2''
     (exState False (Some ''{1000,p1,u1}'') 1500) =
     (Inr None, exState False (Some ''{1000,p1,u1}'') 1500) \<and>
   trackPreviousPageVisit (browser True (Some exJSON) exDump exDumpValue okHandler) ''p2'' ''u2''
     (exState False (Some ''{1000,p1,u1}'') 1500) =
     (Inr (), exState False (Some ''{1000,p1,u1}'') 1500)"
proof -
  have h: "utlCanUseSessionStorage (browser True (Some exJSON) exDump exDumpValue okHandler)
     (world (exState False (Some ''{1000,p1,u1}'') 1500)) =
     (Inr False, world (exState False (Some ''{1000,p1,u1}'') 1500))"
    by (simp add: browser_def exState_def)
  show ?thesis
    using storage_unavailable_noop [OF h, of "''p2''" "''u2''"] h by simp
qed

text \<open>
  Claim C7. \<^verbatim>\<open>stopPageVisitTimer\<close> on an empty slot returns \<^verbatim>\<open>null\<close>, does not
  throw and changes nothing; and after a stop that returned a record, the next
  stop returns \<^verbatim>\<open>null\<close>, the first having cleared the slot.
\<close>

theorem stop_idle_returns_null:
  "(slot s = None \<longrightarrow> stopPageVisitTimer (browser hasJ js dump dumpV handler) s = (Inr None, s)) \<and>
   (stopPageVisitTimer (browser hasJ js dump dumpV handler) s = (Inr (Some d), s') \<longrightarrow>
      stopPageVisitTimer (browser hasJ js dump dumpV handler) s' = (Inr None, s'))"
  using browser_stop_Some [of hasJ js dump dumpV handler s d s']
  by (auto simp: browser_stop_idle slot_setSlot)

text \<open>An instance of the theorem, on the example session.\<close>

theorem stop_idle_returns_null_witness:
  "slot (exState True None 1200) = None \<and>
   stopPageVisitTimer (browser True (Some exJSON) exDump exDumpValue okHandler) (exState True None 1200) =
     (Inr None, exState True None 1200) \<and>
   stopPageVisitTimer (browser True (Some exJSON) exDump exDumpValue okHandler)
     (exState True (Some ''{1000,p1,u1}'') 1200) =
     (Inr (Some \<lparr>pageName = ''p1'', pageUrl = ''u1'', pageVisitStartTime = 1000,
                 pageVisitTime = Some 200\<rparr>),
      exState True None 1200)"
proof -
  let ?env = "browser True (Some exJSON) exDump exDumpValue okHandler"
  have h1: "slot (exState True None 1200) = None"
    by (simp add: exState_def slot_def)
  have h2: "stopPageVisitTimer ?env (exState True (Some ''{1000,p1,u1}'') 1200) =
     (Inr (Some \<lparr>pageName = ''p1'', pageUrl = ''u1'', pageVisitStartTime = 1000,
                 pageVisitTime = Some 200\<rparr>),
      exState True None 1200)"
    by (simp add: example_simps)
  show ?thesis
    using h1 h2
      stop_idle_returns_null [of "exState True None 1200" True "Some exJSON" exDump exDumpValue okHandler,
          THEN conjunct1, THEN mp, OF h1]
      stop_idle_returns_null [of "exState True (Some ''{1000,p1,u1}'') 1200" True "Some exJSON" exDump exDumpValue okHandler
            "\<lparr>pageName = ''p1'', pageUrl = ''u1'', pageVisitStartTime = 1000,
               pageVisitTime = Some 200\<rparr>" "exState True None 1200",
          THEN conjunct2, THEN mp, OF h2]
    by simp
qed

text \<open>
  Claim C8. \<^verbatim>\<open>pageVisitTime\<close> is assigned by \<^verbatim>\<open>stopPageVisitTimer\<close> only: the
  constructor leaves it undefined; whatever \<^verbatim>\<open>startPageVisitTimer\<close> writes into
  the slot is the text of a record whose \<^verbatim>\<open>pageVisitTime\<close> is undefined; and
  every record a stop returns has a \<^verbatim>\<open>pageVisitTime\<close>, a time minus the record's
  \<^verbatim>\<open>pageVisitStartTime\<close>.
\<close>

theorem pageVisitTime_set_only_by_stop:
  "(new_PageVisitData env name url sg = (Inr d, sg') \<longrightarrow> pageVisitTime d = None) \<and>
   (slot (snd (startPageVisitTimer (browser hasJ js dump dumpV handler) name url s)) \<noteq> slot s \<longrightarrow>
      (\<exists>j str. js = Some j \<and>
         stringify j \<lparr>pageName = name, pageUrl = url, pageVisitStartTime = clock (world s),
                      pageVisitTime = None\<rparr> = Inr str \<and>
         slot (snd (startPageVisitTimer (browser hasJ js dump dumpV handler) name url s)) = Some str)) \<and>
   (stopPageVisitTimer env sg = (Inr (Some d), sg') \<longrightarrow>
      (\<exists>t. pageVisitTime d = Some (t - pageVisitStartTime d)))"
proof (intro conjI impI)
  assume "new_PageVisitData env name url sg = (Inr d, sg')"
  then show "pageVisitTime d = None"
    by (auto simp: new_PageVisitData_def prog_defs split: prod.splits sum.splits)
next
  assume "slot (snd (startPageVisitTimer (browser hasJ js dump dumpV handler) name url s)) \<noteq> slot s"
  then show "\<exists>j str. js = Some j \<and>
         stringify j \<lparr>pageName = name, pageUrl = url, pageVisitStartTime = clock (world s),
                      pageVisitTime = None\<rparr> = Inr str \<and>
         slot (snd (startPageVisitTimer (browser hasJ js dump dumpV handler) name url s)) = Some str"
    by (auto simp: browser_simps split: if_splits option.splits sum.splits)
next
  assume "stopPageVisitTimer env sg = (Inr (Some d), sg')"
  then show "\<exists>t. pageVisitTime d = Some (t - pageVisitStartTime d)"
    by (auto simp: stopPageVisitTimer_def stopBody_def prog_defs Let_def
        split: prod.splits sum.splits if_splits option.splits)
qed

text \<open>An instance of the theorem, on the example session.\<close>

theorem pageVisitTime_set_only_by_stop_witness:
  "new_PageVisitData (browser True (Some exJSON) exDump exDumpValue okHandler) ''p1'' ''u1''
     (exState True None 1000) =
     (Inr \<lparr>pageName = ''p1'', pageUrl = ''u1'', pageVisitStartTime = 1000, pageVisitTime = None\<rparr>,
      exState True None 1000) \<and>
   slot (snd (startPageVisitTimer (browser True (Some exJSON) exDump exDumpValue okHandler) ''p1'' ''u1''
     (exState True None 1000))) \<noteq> slot (exState True None 1000) \<and>
   (\<exists>str. stringify exJSON \<lparr>pageName = ''p1'', pageUrl = ''u1'', pageVisitStartTime = 1000,
                            pageVisitTime = None\<rparr> = Inr str \<and>
      slot (snd (startPageVisitTimer (browser True (Some exJSON) exDump exDumpValue okHandler) ''p1'' ''u1''
        (exState True None 1000))) = Some str) \<and>
   stopPageVisitTimer (browser True (Some exJSON) exDump exDumpValue okHandler)
     (exState True (Some ''{1000,p1,u1}'') 1200) =
     (Inr (Some \<lparr>pageName = ''p1'', pageUrl = ''u1'', pageVisitStartTime = 1000,
                 pageVisitTime = Some 200\<rparr>),
      exState True None 1200) \<and>
   (\<exists>t. Some (200::int) = Some (t - 1000))"
proof -
  let ?env = "browser True (Some exJSON) exDump exDumpValue okHandler"
  let ?d = "\<lparr>pageName = ''p1'', pageUrl = ''u1'', pageVisitStartTime = 1000,
             pageVisitTime = Some 200\<rparr>"
  have h1: "new_PageVisitData ?env ''p1'' ''u1'' (exState True None 1000) =
     (Inr \<lparr>pageName = ''p1'', pageUrl = ''u1'', pageVisitStartTime = 1000, pageVisitTime = None\<rparr>,
      exState True None 1000)"
    by (simp add: example_simps)
  have h2: "slot (snd (startPageVisitTimer ?env ''p1'' ''u1'' (exState True None 1000))) \<noteq>
     slot (exState True None 1000)"
    by (simp add: example_simps)
  have h3: "stopPageVisitTimer ?env (exState True (Some ''{1000,p1,u1}'') 1200) =
     (Inr (Some ?d), exState True None 1200)"
    by (simp add: example_simps)
  have c: "clock (world (exState True None 1000)) = 1000"
    by (simp add: exState_def)
  show ?thesis
    using h1 h2 h3 c
      pageVisitTime_set_only_by_stop [of ?env "''p1''" "''u1''" "exState True None 1000" _ "exState True None 1000"
            True "Some exJSON" exDump exDumpValue okHandler "exState True None 1000"]
      pageVisitTime_set_only_by_stop [of ?env _ _ "exState True (Some ''{1000,p1,u1}'') 1200" ?d "exState True None 1200"]
    by simp
qed

text \<open>
  Claim C9. With session storage present and a value in the slot, when that value
  is the empty string or \<^verbatim>\<open>hasJSON()\<close> is false, \<^verbatim>\<open>stopPageVisitTimer\<close> returns
  \<^verbatim>\<open>null\<close> and removes nothing: the state, and with it the slot, is unchanged.
\<close>

theorem stop_falsy_leaves_slot:
  assumes "storageEnabled (world s)" and "slot s = Some v" and "v = [] \<or> \<not> hasJ"
  shows "stopPageVisitTimer (browser hasJ js dump dumpV handler) s = (Inr None, s) \<and>
         slot (snd (stopPageVisitTimer (browser hasJ js dump dumpV handler) s)) = Some v"
  using assms by (simp add: browser_stop_falsy)

text \<open>Two instances: an empty string in the slot; no JSON.\<close>

theorem stop_falsy_leaves_slot_witness:
  "storageEnabled (world (exState True (Some '''') 1200)) \<and>
   slot (exState True (Some '''') 1200) = Some '''' \<and>
   stopPageVisitTimer (browser True (Some exJSON) exDump exDumpValue okHandler) (exState True (Some '''') 1200) =
     (Inr None, exState True (Some '''') 1200) \<and>
   storageEnabled (world (exState True (Some ''{1000,p1,u1}'') 1200)) \<and>
   slot (exState True (Some ''{1000,p1,u1}'') 1200) = Some ''{1000,p1,u1}'' \<and>
   stopPageVisitTimer (browser False None exDump exDumpValue okHandler)
     (exState True (Some ''{1000,p1,u1}'') 1200) =
     (Inr None, exState True (Some ''{1000,p1,u1}'') 1200)"
proof -
  have h1: "storageEnabled (world (exState True (Some '''') 1200))"
    "slot (exState True (Some '''') 1200) = Some ''''"
    "'''' = [] \<or> \<not> True"
    by (simp_all add: exState_def slot_def)
  have h2: "storageEnabled (world (exState True (Some ''{1000,p1,u1}'') 1200))"
    "slot (exState True (Some ''{1000,p1,u1}'') 1200) = Some ''{1000,p1,u1}''"
    "''{1000,p1,u1}'' = [] \<or> \<not> False"
    by (simp_all add: exState_def slot_def)
  show ?thesis
    using stop_falsy_leaves_slot [OF h1, of "Some exJSON" exDump exDumpValue okHandler] stop_falsy_leaves_slot [OF h2, of None exDump exDumpValue okHandler] h1 h2
    by simp
qed

text \<open>
  Claim C10, as stated, fails in its first part: when the handler throws a value
  \<^verbatim>\<open>dumpObj\<close> cannot serialize, the error is caught but not logged, and the
  \<^verbatim>\<open>TypeError\<close> of \<^verbatim>\<open>dumpObj\<close> leaves \<^verbatim>\<open>trackPreviousPageVisit\<close>.
\<close>

theorem handler_failure_keeps_new_record_counterexample:
  "circularHandler ''p2'' ''u2'' (Some 500) = Inl (Value ''o = {}; o.self = o'') \<and>
   fst (trackPreviousPageVisit (browser True (Some exJSON) exDump exDumpValue circularHandler)
          ''p3'' ''u3'' (exState True (Some ''{1500,p2,u2}'') 2000)) =
     Inl (ErrorObject (TypeError ''Converting circular structure to JSON'')) \<and>
   warnings (snd (trackPreviousPageVisit
          (browser True (Some exJSON) exDump exDumpValue circularHandler)
          ''p3'' ''u3'' (exState True (Some ''{1500,p2,u2}'') 2000))) = []"
  by (simp add: example_simps)

text \<open>
  Claim C10, amended. When the injected handler throws during
  \<^verbatim>\<open>trackPreviousPageVisit\<close>, whatever it throws, the slot afterwards holds the
  text of the new page's record: the restart has written it before the handler is
  called, and the handler was called once, with the previous page's data. When
  \<^verbatim>\<open>dumpObj\<close> describes what was thrown, the method logs the error and returns
  normally. Here the slot held a readable record of a previous page, and
  \<^verbatim>\<open>stringify\<close> gives a text for the new one.
\<close>

theorem handler_failure_keeps_new_record:
  assumes "storageEnabled (world s)" and "slot s = Some old" and "old \<noteq> []"
    and "parse j old = Inr prev"
    and "stringify j (unfinalized name url (clock (world s))) = Inr new"
    and "handler (pageName prev) (pageUrl prev)
           (Some (clock (world s) - pageVisitStartTime prev)) = Inl e"
  shows
   "slot (snd (trackPreviousPageVisit (browser True (Some j) dump dumpV handler) name url s)) =
      Some new \<and>
    reported (snd (trackPreviousPageVisit (browser True (Some j) dump dumpV handler) name url s)) =
      reported s @
        [(pageName prev, pageUrl prev, Some (clock (world s) - pageVisitStartTime prev))] \<and>
    (dumpObj (browser True (Some j) dump dumpV handler) e = Inr m \<longrightarrow>
       trackPreviousPageVisit (browser True (Some j) dump dumpV handler) name url s =
         (Inr (),
          (setSlot (Some new) s)
            \<lparr>warnings := warnings s @
               [''Auto track page visit time failed, metric will not be collected: '' @ m],
             reported := reported s @
               [(pageName prev, pageUrl prev, Some (clock (world s) - pageVisitStartTime prev))]\<rparr>))"
proof -
  let ?env = "browser True (Some j) dump dumpV handler"
  let ?d = "prev\<lparr>pageVisitTime := Some (clock (world s) - pageVisitStartTime prev)\<rparr>"
  let ?prefix = "''Auto track page visit time failed, metric will not be collected: ''"
  let ?called = "(setSlot (Some new) s)
      \<lparr>reported := reported s @
         [(pageName prev, pageUrl prev, Some (clock (world s) - pageVisitStartTime prev))]\<rparr>"
  have stop: "stopPageVisitTimer ?env s = (Inr (Some ?d), setSlot None s)"
    using assms(1-4) by (rule browser_stop_timing)
  have start: "startPageVisitTimer ?env name url (setSlot None s) =
      (Inr (), setSlot (Some new) s)"
    using assms(1,5)
      browser_start_idle [of "setSlot None s" j name url new True dump dumpV handler]
    by (simp add: slot_setSlot setSlot_setSlot) (simp add: setSlot_def)
  have restart: "restartPageVisitTimer ?env name url s = (Inr (Some ?d), setSlot (Some new) s)"
    by (simp add: restart_unfold stop start)
  have track: "trackPreviousPageVisit ?env name url s = warnFailed ?env ?prefix e ?called"
    using assms(6)
    by (simp add: track_after_restart_Some [OF restart]) (simp add: browser_def setSlot_def)
  have "slot (snd (warnFailed ?env ?prefix e ?called)) = slot ?called"
    using warnFailed_world [of ?env ?prefix e ?called] by (simp add: slot_def)
  then have a: "slot (snd (trackPreviousPageVisit ?env name url s)) = Some new"
    by (simp add: track) (simp add: slot_def setSlot_def)
  have b: "reported (snd (trackPreviousPageVisit ?env name url s)) =
      reported s @
        [(pageName prev, pageUrl prev, Some (clock (world s) - pageVisitStartTime prev))]"
    by (simp add: track warnFailed_reported)
  have c: "dumpObj ?env e = Inr m \<longrightarrow>
       trackPreviousPageVisit ?env name url s =
         (Inr (),
          (setSlot (Some new) s)
            \<lparr>warnings := warnings s @ [?prefix @ m],
             reported := reported s @
               [(pageName prev, pageUrl prev, Some (clock (world s) - pageVisitStartTime prev))]\<rparr>)"
    by (auto simp: track warnFailed_dumped setSlot_def)
  from a b c show ?thesis by blast
qed

text \<open>
  Two instances: the handler throws an Error object, which is logged; it throws a
  value \<^verbatim>\<open>dumpObj\<close> cannot describe, and the new page's record is in the slot
  all the same.
\<close>

theorem handler_failure_keeps_new_record_witness:
  "storageEnabled (world (exState True (Some ''{1000,p1,u1}'') 1500)) \<and>
   slot (exState True (Some ''{1000,p1,u1}'') 1500) = Some ''{1000,p1,u1}'' \<and>
   parse exJSON ''{1000,p1,u1}'' = Inr (unfinalized ''p1'' ''u1'' 1000) \<and>
   stringify exJSON (unfinalized ''p2'' ''u2'' 1500) = Inr ''{1500,p2,u2}'' \<and>
   badHandler ''p1'' ''u1'' (Some 500) = Inl (ErrorObject (Error ''handler failed'')) \<and>
   dumpObj (browser True (Some exJSON) exDump exDumpValue badHandler)
     (ErrorObject (Error ''handler failed'')) = Inr ''handler failed'' \<and>
   trackPreviousPageVisit (browser True (Some exJSON) exDump exDumpValue badHandler) ''p2'' ''u2''
     (exState True (Some ''{1000,p1,u1}'') 1500) =
     (Inr (), (exState True (Some ''{1500,p2,u2}'') 1500)
        \<lparr>warnings := [''Auto track page visit time failed, metric will not be collected: handler failed''],
         reported := [(''p1'', ''u1'', Some 500)]\<rparr>) \<and>
   slot (snd (trackPreviousPageVisit (browser True (Some exJSON) exDump exDumpValue badHandler)
     ''p2'' ''u2'' (exState True (Some ''{1000,p1,u1}'') 1500))) = Some ''{1500,p2,u2}'' \<and>
   circularHandler ''p1'' ''u1'' (Some 500) = Inl (Value ''o = {}; o.self = o'') \<and>
   slot (snd (trackPreviousPageVisit (browser True (Some exJSON) exDump exDumpValue circularHandler)
     ''p2'' ''u2'' (exState True (Some ''{1000,p1,u1}'') 1500))) = Some ''{1500,p2,u2}'' \<and>
   reported (snd (trackPreviousPageVisit
     (browser True (Some exJSON) exDump exDumpValue circularHandler)
     ''p2'' ''u2'' (exState True (Some ''{1000,p1,u1}'') 1500))) = [(''p1'', ''u1'', Some 500)]"
proof -
  let ?s = "exState True (Some ''{1000,p1,u1}'') 1500"
  let ?prev = "unfinalized ''p1'' ''u1'' 1000"
  have h: "storageEnabled (world ?s)" "slot ?s = Some ''{1000,p1,u1}''" "''{1000,p1,u1}'' \<noteq> []"
    "parse exJSON ''{1000,p1,u1}'' = Inr ?prev"
    "stringify exJSON (unfinalized ''p2'' ''u2'' (clock (world ?s))) = Inr ''{1500,p2,u2}''"
    by (simp_all add: exState_def slot_def exJSON_def tableJSON_def unfinalized_def)
  have bad: "badHandler (pageName ?prev) (pageUrl ?prev)
      (Some (clock (world ?s) - pageVisitStartTime ?prev)) = Inl (ErrorObject (Error ''handler failed''))"
    by (simp add: badHandler_def)
  have circ: "circularHandler (pageName ?prev) (pageUrl ?prev)
      (Some (clock (world ?s) - pageVisitStartTime ?prev)) = Inl (Value ''o = {}; o.self = o'')"
    by (simp add: circularHandler_def)
  have dumped: "dumpObj (browser True (Some exJSON) exDump exDumpValue badHandler)
      (ErrorObject (Error ''handler failed'')) = Inr ''handler failed''"
    by (simp add: dumpObj_def browser_def)
  have e: "setSlot (Some ''{1500,p2,u2}'') ?s = exState True (Some ''{1500,p2,u2}'') 1500"
    "clock (world ?s) = 1500" "warnings ?s = []" "reported ?s = []"
    "pageName ?prev = ''p1''" "pageUrl ?prev = ''u1''" "pageVisitStartTime ?prev = 1000"
    "badHandler ''p1'' ''u1'' (Some 500) = Inl (ErrorObject (Error ''handler failed''))"
    "circularHandler ''p1'' ''u1'' (Some 500) = Inl (Value ''o = {}; o.self = o'')"
    by (simp_all add: exState_def setSlot_def unfinalized_def badHandler_def circularHandler_def)
  note b = handler_failure_keeps_new_record
    [where handler = badHandler and dump = exDump and dumpV = exDumpValue
       and m = "''handler failed''", OF h bad]
  note c = handler_failure_keeps_new_record
    [where handler = circularHandler and dump = exDump and dumpV = exDumpValue, OF h circ]
  show ?thesis
    using h dumped b [THEN conjunct1] b [THEN conjunct2, THEN conjunct2, THEN mp, OF dumped]
      c [THEN conjunct1] c [THEN conjunct2, THEN conjunct1]
    by (simp add: e)
qed

end
